theory Spec2Isabelle
  imports Main
begin

section \<open>Values and data of the coin market page\<close>

text \<open>
  The page in \<^verbatim>\<open>src/App.tsx\<close> shows a paginated table of market rows. The rows
  (\<^verbatim>\<open>MarketCoins\<close>) are never inspected by the query code: they are fetched, cached and
  handed to the table as they are. The row type is therefore a type parameter \<open>'c\<close>.

  Query keys and request parameters are built from strings and numbers only; the numbers
  are page numbers and page sizes, modelled as integers.
\<close>

datatype js_prim = JStr string | JNum int

type_synonym query_key = "js_prim list"

text \<open>The two enums of the source, each with its single member.\<close>

definition COINS_MARKET :: string where
  "COINS_MARKET = ''/coins/markets''"

definition GET_MARKET_COINS_QUERIES :: string where
  "GET_MARKET_COINS_QUERIES = ''GET_MARKET_COINS_QUERIES''"

text \<open>\<^verbatim>\<open>interface MarketCoinsParams { vs_currency: string; order: string }\<close>\<close>

record MarketCoinsParams =
  vs_currency :: string
  order :: string

text \<open>
  What one render of \<^verbatim>\<open>CoinMarketPage\<close> sees: the two watched form fields and the two
  \<^verbatim>\<open>useState\<close> cells.
\<close>

record page_state =
  currency :: string
  marketCap :: string
  currentPage :: int
  pageSize :: int

text \<open>The initial render: the form's default values and the initial \<^verbatim>\<open>useState\<close> values.\<close>

definition initial_page :: page_state where
  "initial_page =
     \<lparr>currency = ''usd'', marketCap = ''market_cap_desc'', currentPage = 1, pageSize = 10\<rparr>"

section \<open>The HTTP boundary\<close>

text \<open>
  The configuration \<^verbatim>\<open>asyncGetCoins\<close> passes to \<^verbatim>\<open>axiosInstance.get\<close>: the endpoint and
  the query parameters in the order the object literal lists them (the spread of
  \<^verbatim>\<open>params\<close> first, then \<^verbatim>\<open>page\<close> and \<^verbatim>\<open>per_page\<close>).
\<close>

record get_request =
  endpoint :: string
  params :: "(string \<times> js_prim) list"

text \<open>
  An axios response carries a status and the parsed body. For a successful call the body
  is the row list. For a failed call the handler reads \<^verbatim>\<open>response.data.message\<close>; what
  matters of the body is whether it is \<^verbatim>\<open>null\<close>/\<^verbatim>\<open>undefined\<close> (reading a property of it
  throws) and, if it is not, whether it has a string \<^verbatim>\<open>message\<close>.
\<close>

datatype 'd axios_response = AxiosResponse (status: int) (response_data: 'd)

datatype js_data = Nullish | Body "string option"

datatype xhr = XMLHttpRequest

text \<open>
  What a rejected fetch carries: an \<^verbatim>\<open>AxiosError\<close> with its optional \<^verbatim>\<open>response\<close> and
  \<^verbatim>\<open>request\<close>, or any other \<^verbatim>\<open>Error\<close>; both have a \<^verbatim>\<open>message\<close>.
\<close>

datatype js_error =
    is_AxiosError: AxiosError (response: "js_data axios_response option")
                              (request: "xhr option") (message: string)
  | Error (message: string)

datatype js_exception = TypeError

definition coinsRequest :: "MarketCoinsParams \<Rightarrow> int \<Rightarrow> int \<Rightarrow> get_request" where
  "coinsRequest ps page pageSize' =
     \<lparr>endpoint = COINS_MARKET,
      params = [(''vs_currency'', JStr (vs_currency ps)), (''order'', JStr (order ps)),
                (''page'', JNum page), (''per_page'', JNum pageSize')]\<rparr>"

text \<open>
  \<^verbatim>\<open>asyncGetCoins\<close>: one call of the transport \<open>get\<close> (\<^verbatim>\<open>axiosInstance.get\<close>, a parameter
  here); \<^verbatim>\<open>.then((res) => res.data)\<close> on success, the rejection passed on unchanged.
\<close>

definition asyncGetCoins ::
  "(get_request \<Rightarrow> js_error + 'c list axios_response) \<Rightarrow> MarketCoinsParams \<Rightarrow> int \<Rightarrow> int
     \<Rightarrow> js_error + 'c list" where
  "asyncGetCoins get ps page pageSize' =
     (case get (coinsRequest ps page pageSize') of
        Inr res \<Rightarrow> Inr (response_data res)
      | Inl err \<Rightarrow> Inl err)"

section \<open>Error handling\<close>

text \<open>
  JavaScript's \<^verbatim>\<open>a || b\<close> for \<open>a\<close> a string or \<^verbatim>\<open>undefined\<close>: \<^verbatim>\<open>undefined\<close> and the empty
  string are falsy.
\<close>

definition js_or :: "string option \<Rightarrow> string \<Rightarrow> string" where
  "js_or a b = (case a of None \<Rightarrow> b | Some s \<Rightarrow> if s = [] then b else s)"

text \<open>
  \<^verbatim>\<open>handleQueryError\<close>, branch by branch. In the first branch \<^verbatim>\<open>response?.data.message\<close>
  guards \<^verbatim>\<open>response\<close> only, so a \<^verbatim>\<open>null\<close> body makes the property read throw.
\<close>

definition handleQueryError :: "js_error \<Rightarrow> js_exception + string" where
  "handleQueryError err =
     (if is_AxiosError err \<and> response err \<noteq> None then
        (case response_data (the (response err)) of
           Nullish \<Rightarrow> Inl TypeError
         | Body msg \<Rightarrow> Inr (js_or msg ''Unknown error''))
      else if is_AxiosError err \<and> request err \<noteq> None then Inr ''No response from server''
      else Inr (message err))"

text \<open>A toast as \<^verbatim>\<open>errorNotificationToast\<close> configures it; the shown toasts form a log.\<close>

record toast =
  content :: string
  position :: string
  autoClose :: int
  hideProgressBar :: bool
  closeOnClick :: bool
  pauseOnHover :: bool
  draggable :: bool

definition errorNotificationToast :: "string \<Rightarrow> toast list \<Rightarrow> toast list" where
  "errorNotificationToast msg shown =
     shown @ [\<lparr>content = msg, position = ''bottom-right'', autoClose = 5000,
               hideProgressBar = False, closeOnClick = True, pauseOnHover = True,
               draggable = True\<rparr>]"

section \<open>The query hook\<close>

text \<open>
  The query client's cache, as far as the page uses it: a map from keys to row lists. The
  client and its two methods belong to the query library, which is not part of the
  source tree.
\<close>

type_synonym 'c query_cache = "query_key \<rightharpoonup> 'c list"

text \<open>
  Modelled from the spec: \<^verbatim>\<open>queryClient.getQueryData\<close>, missing from the sources. Section
  4.2: a non-blocking, synchronous lookup that returns the rows of the key or nothing.
\<close>

definition getQueryData :: "'c query_cache \<Rightarrow> query_key \<Rightarrow> 'c list option" where
  "getQueryData cache k = cache k"

text \<open>
  Modelled from the spec: \<^verbatim>\<open>queryClient.setQueryData\<close>, missing from the sources. Section
  4.2: overwrites any prior entry of the key; the last writer wins, nothing is merged.
\<close>

definition setQueryData :: "'c query_cache \<Rightarrow> query_key \<Rightarrow> 'c list \<Rightarrow> 'c query_cache" where
  "setQueryData cache k rows = cache(k \<mapsto> rows)"

text \<open>
  The two key literals of \<^verbatim>\<open>useGetMarketCoinsQuery\<close>: the one given to \<^verbatim>\<open>getQueryData\<close>
  and \<^verbatim>\<open>setQueryData\<close> (the display key), and the one given to \<^verbatim>\<open>useQuery\<close> (the fetch
  key), which has \<^verbatim>\<open>pageSize\<close> as a fifth element.
\<close>

definition displayKey :: "page_state \<Rightarrow> query_key" where
  "displayKey st =
     [JStr GET_MARKET_COINS_QUERIES, JStr (currency st), JStr (marketCap st),
      JNum (currentPage st)]"

definition fetchKey :: "page_state \<Rightarrow> query_key" where
  "fetchKey st =
     [JStr GET_MARKET_COINS_QUERIES, JStr (currency st), JStr (marketCap st),
      JNum (currentPage st), JNum (pageSize st)]"

text \<open>
  The arguments one render hands to \<^verbatim>\<open>useQuery\<close>: the key, the query function (which
  calls \<^verbatim>\<open>asyncGetCoins\<close> with the render's values) and \<^verbatim>\<open>initialData\<close>. An array is
  truthy even when empty, so \<^verbatim>\<open>marketCoinsQueryData || []\<close> falls back only when the
  lookup found nothing. The two callbacks follow as functions of their own.
\<close>

record 'c use_query_args =
  queryKey :: query_key
  queryFn :: "(get_request \<Rightarrow> js_error + 'c list axios_response) \<Rightarrow> js_error + 'c list"
  initialData :: "'c list"

definition useGetMarketCoinsQuery :: "'c query_cache \<Rightarrow> page_state \<Rightarrow> 'c use_query_args" where
  "useGetMarketCoinsQuery cache st =
     (let marketCoinsQueryData = getQueryData cache (displayKey st) in
      \<lparr>queryKey = fetchKey st,
       queryFn = (\<lambda>get. asyncGetCoins get
                    \<lparr>vs_currency = currency st, order = marketCap st\<rparr>
                    (currentPage st) (pageSize st)),
       initialData = (case marketCoinsQueryData of None \<Rightarrow> [] | Some rows \<Rightarrow> rows)\<rparr>)"

text \<open>
  \<^verbatim>\<open>onError\<close>: the argument \<^verbatim>\<open>handleQueryError(error)\<close> is evaluated first; if it throws,
  \<^verbatim>\<open>errorNotificationToast\<close> is not reached.
\<close>

definition onError :: "js_error \<Rightarrow> toast list \<Rightarrow> js_exception + toast list" where
  "onError err shown =
     (case handleQueryError err of
        Inl exn \<Rightarrow> Inl exn
      | Inr msg \<Rightarrow> Inr (errorNotificationToast msg shown))"

definition onSuccess :: "page_state \<Rightarrow> 'c list \<Rightarrow> 'c query_cache \<Rightarrow> 'c query_cache" where
  "onSuccess st rows cache = setQueryData cache (displayKey st) rows"

text \<open>
  \<^verbatim>\<open>handlePageChange\<close>. The second argument is a JavaScript number or, when the caller
  leaves it out, \<^verbatim>\<open>undefined\<close>; \<^verbatim>\<open>if (pageSize)\<close> is false for \<^verbatim>\<open>undefined\<close> and for 0.
\<close>

definition handlePageChange :: "int \<Rightarrow> int option \<Rightarrow> page_state \<Rightarrow> page_state" where
  "handlePageChange page pageSize' st =
     (let st1 = st\<lparr>currentPage := page\<rparr> in
      case pageSize' of
        None \<Rightarrow> st1
      | Some n \<Rightarrow> if n \<noteq> 0 then st1\<lparr>pageSize := n\<rparr> else st1)"

text \<open>The default options \<^verbatim>\<open>App\<close> gives its \<^verbatim>\<open>QueryClient\<close>.\<close>

record query_options =
  refetchOnWindowFocus :: bool
  keepPreviousData :: bool

definition App_defaultOptions :: query_options where
  "App_defaultOptions = \<lparr>refetchOnWindowFocus = False, keepPreviousData = True\<rparr>"

section \<open>The query coordinator\<close>

text \<open>
  \<^verbatim>\<open>useQuery\<close> and the \<^verbatim>\<open>QueryClient\<close> that drive the hook are the query library's, which is
  not part of the source tree. The coordinator of this section stands for them. It
  follows sections 4.3, 5 and 9 of the specification. Everything the source itself
  decides is taken from the definitions above: the keys, the seed \<^verbatim>\<open>initialData\<close>, the
  request, the two callbacks and the client's default options.
\<close>

text \<open>
  Modelled from the spec: the observable state \<^verbatim>\<open>useQuery\<close> returns (missing from the
  sources), with the fields section 4.3 names.
\<close>

record 'c query_result =
  data :: "'c list"
  isLoading :: bool
  isFetching :: bool
  error :: "js_error option"

text \<open>
  Modelled from the spec: the state of the coordinator (missing from the sources). The
  store of section 4.2, the fetches in flight by fetch key (section 9), the render whose
  query is displayed, the observable state, and two logs: the requests given to the
  Remote Fetcher and the toasts shown.
\<close>

record 'c coordinator =
  cache :: "'c query_cache"
  inflight :: "query_key list"
  active :: "page_state option"
  result :: "'c query_result"
  fetches :: "get_request list"
  toasts :: "toast list"

text \<open>
  Modelled from the spec: the events of the single processing thread of section 5
  (missing from the sources): a render that runs the query with the page's current
  values, the outcome of a pending fetch, and the window regaining focus. Whether a query
  that has just been started is reported as loading is decided inside the library from
  the seed it was given; the source does not fix it, and section 4.3 words it by a cached
  value of the fetch key while the store it describes has display keys only. The run
  event therefore carries that flag.
\<close>

datatype 'c event =
    Run page_state bool
  | Resolve query_key "'c list"
  | Reject query_key js_error
  | WindowFocus

text \<open>
  Modelled from the spec: the coordinator at session start (missing from the sources):
  an empty store, nothing in flight, nothing displayed.
\<close>

definition init_coordinator :: "'c coordinator" where
  "init_coordinator =
     \<lparr>cache = Map.empty, inflight = [], active = None,
      result = \<lparr>data = [], isLoading = False, isFetching = False, error = None\<rparr>,
      fetches = [], toasts = []\<rparr>"

text \<open>
  The request the query function of a render sends: the arguments the hook gives
  \<^verbatim>\<open>asyncGetCoins\<close>, put into \<open>coinsRequest\<close>.
\<close>

definition fetch_request :: "page_state \<Rightarrow> get_request" where
  "fetch_request st =
     coinsRequest \<lparr>vs_currency = currency st, order = marketCap st\<rparr>
       (currentPage st) (pageSize st)"

text \<open>
  Modelled from the spec: steps 3 and 4 of \<^emph>\<open>run\<close> in section 4.3 (the library's
  deduplication, missing from the sources). A fetch whose key is already in flight is
  joined; otherwise exactly one call of the Remote Fetcher is issued.
\<close>

definition launch :: "query_key \<Rightarrow> get_request \<Rightarrow> 'c coordinator \<Rightarrow> 'c coordinator" where
  "launch k req s =
     (if k \<in> set (inflight s) then s
      else s\<lparr>inflight := inflight s @ [k], fetches := fetches s @ [req]\<rparr>)"

text \<open>
  Modelled from the spec: whether a starting run keeps the displayed data (decided by
  the library, missing from the sources). The data of the query that is already
  displayed stays; under the keep-previous-data policy of section 4.3 so does the
  previous successful data when the key changes.
\<close>

definition keeps_data :: "query_options \<Rightarrow> page_state \<Rightarrow> 'c coordinator \<Rightarrow> bool" where
  "keeps_data opts st s =
     (case active s of
        None \<Rightarrow> False
      | Some prev \<Rightarrow>
          fetchKey prev = fetchKey st \<or> (keepPreviousData opts \<and> error (result s) = None))"

text \<open>
  Modelled from the spec: \<^emph>\<open>run\<close>, steps 1 to 4 of section 4.3 (the library's \<^verbatim>\<open>useQuery\<close>
  on a render, missing from the sources). The hook computes the keys and the seed; the
  state returned at once shows the kept data or else the seed, and is fetching.
\<close>

definition run :: "query_options \<Rightarrow> page_state \<Rightarrow> bool \<Rightarrow> 'c coordinator \<Rightarrow> 'c coordinator" where
  "run opts st loading s =
     (let args = useGetMarketCoinsQuery (cache s) st;
          shown = (if keeps_data opts st s then data (result s) else initialData args)
      in launch (queryKey args) (fetch_request st)
           (s\<lparr>active := Some st,
              result := \<lparr>data = shown, isLoading = loading, isFetching = True,
                         error = None\<rparr>\<rparr>))"

text \<open>
  Modelled from the spec: the key the coordinator is still waiting on, the "active key"
  of section 5 (kept by the library, missing from the sources).
\<close>

definition is_active :: "query_key \<Rightarrow> 'c coordinator \<Rightarrow> bool" where
  "is_active k s = (case active s of None \<Rightarrow> False | Some st \<Rightarrow> fetchKey st = k)"

text \<open>
  Modelled from the spec: step 5 of section 4.3 (the library settling a fetch, missing
  from the sources). The fetch leaves the fetches in flight; for the active key the
  source's \<open>onSuccess\<close> writes the store and the observable state shows the result;
  for a key that is no longer active the outcome is dropped (section 5).
\<close>

definition succeed :: "query_key \<Rightarrow> 'c list \<Rightarrow> 'c coordinator \<Rightarrow> 'c coordinator" where
  "succeed k rows s =
     (if k \<notin> set (inflight s) then s
      else
        let s1 = s\<lparr>inflight := removeAll k (inflight s)\<rparr> in
        case active s of
          None \<Rightarrow> s1
        | Some st \<Rightarrow>
            if fetchKey st = k then
              s1\<lparr>cache := onSuccess st rows (cache s),
                 result := \<lparr>data = rows, isLoading = False, isFetching = False,
                            error = None\<rparr>\<rparr>
            else s1)"

text \<open>
  Modelled from the spec: step 6 of section 4.3 (the library settling a fetch, missing
  from the sources). The store is not modified and the data stays; for the active key
  the failure is recorded and the source's \<open>onError\<close> runs once, which shows its toast
  unless it throws.
\<close>

definition fail :: "query_key \<Rightarrow> js_error \<Rightarrow> 'c coordinator \<Rightarrow> 'c coordinator" where
  "fail k err s =
     (if k \<notin> set (inflight s) then s
      else
        let s1 = s\<lparr>inflight := removeAll k (inflight s)\<rparr> in
        if is_active k s then
          s1\<lparr>result := (result s)\<lparr>isLoading := False, isFetching := False,
                                    error := Some err\<rparr>,
             toasts := (case onError err (toasts s) of
                          Inl exn \<Rightarrow> toasts s
                        | Inr shown \<Rightarrow> shown)\<rparr>
        else s1)"

text \<open>
  Modelled from the spec: the window regaining focus (handled by the library, missing
  from the sources). Section 4.3 names the policy; the displayed query is refetched only
  if the client's \<^verbatim>\<open>refetchOnWindowFocus\<close> option allows it.
\<close>

definition focus :: "query_options \<Rightarrow> 'c coordinator \<Rightarrow> 'c coordinator" where
  "focus opts s =
     (if refetchOnWindowFocus opts then
        (case active s of
           None \<Rightarrow> s
         | Some st \<Rightarrow>
             launch (fetchKey st) (fetch_request st)
               (s\<lparr>result := (result s)\<lparr>isFetching := True\<rparr>\<rparr>))
      else s)"

text \<open>
  Modelled from the spec: one event handled on the processing thread, and a sequence of
  events handled in order (section 5; the library's scheduling, missing from the
  sources).
\<close>

fun step :: "query_options \<Rightarrow> 'c event \<Rightarrow> 'c coordinator \<Rightarrow> 'c coordinator" where
  "step opts (Run st loading) s = run opts st loading s"
| "step opts (Resolve k rows) s = succeed k rows s"
| "step opts (Reject k err) s = fail k err s"
| "step opts WindowFocus s = focus opts s"

fun exec :: "query_options \<Rightarrow> 'c event list \<Rightarrow> 'c coordinator \<Rightarrow> 'c coordinator" where
  "exec opts [] s = s"
| "exec opts (ev # evs) s = exec opts evs (step opts ev s)"


section \<open>The error taxonomy as the specification words it\<close>

text \<open>
  Section 7 names three cases. Read on the message the handler returns: a failure with a
  response is reported with the response's message payload, a failure with a request but
  no response with the fixed no-response message, any other failure with its own message.
\<close>

definition responded :: "js_error \<Rightarrow> bool" where
  "responded err = (is_AxiosError err \<and> response err \<noteq> None)"

definition sent :: "js_error \<Rightarrow> bool" where
  "sent err = (is_AxiosError err \<and> request err \<noteq> None)"

fun payload :: "js_error \<Rightarrow> string option" where
  "payload (AxiosError (Some (AxiosResponse code (Body msg))) rq m) = msg"
| "payload err = None"

fun null_body :: "js_error \<Rightarrow> bool" where
  "null_body (AxiosError (Some (AxiosResponse code Nullish)) rq m) = True"
| "null_body err = False"

definition spec_taxonomy :: "js_error \<Rightarrow> string \<Rightarrow> bool" where
  "spec_taxonomy err s =
     (if responded err then payload err = Some s
      else if sent err then s = ''No response from server''
      else s = message err)"

section \<open>Facts about the keys and the hook\<close>

lemma fetchKey_inj: "fetchKey p = fetchKey q \<longleftrightarrow> p = (q::page_state)"
  by (cases p; cases q) (auto simp: fetchKey_def)


text \<open>
  Display keys have four elements and fetch keys five, so the entries \<open>onSuccess\<close> writes
  never sit under a key that \<^verbatim>\<open>useQuery\<close> was given.
\<close>

lemma displayKey_neq_fetchKey: "displayKey p \<noteq> fetchKey q"
  by (simp add: displayKey_def fetchKey_def)

text \<open>The query function of a render sends exactly \<open>fetch_request\<close> of that render.\<close>

lemma queryFn_request:
  "queryFn (useGetMarketCoinsQuery qc st) get =
     (case get (fetch_request st) of Inr res \<Rightarrow> Inr (response_data res) | Inl err \<Rightarrow> Inl err)"
  by (simp add: useGetMarketCoinsQuery_def Let_def asyncGetCoins_def fetch_request_def)

text \<open>With nothing cached under the display key the hook seeds the query with no rows.\<close>

lemma initialData_unseeded:
  "getQueryData qc (displayKey st) = None \<Longrightarrow> initialData (useGetMarketCoinsQuery qc st) = []"
  by (simp add: useGetMarketCoinsQuery_def Let_def)


section \<open>The error handler\<close>

text \<open>
  C5. As worded, the three cases do not describe the handler: for a failure whose response
  has no \<^verbatim>\<open>message\<close> the handler returns the fixed text \<^verbatim>\<open>Unknown error\<close>, which is neither
  a message payload of the response nor the failure's own message.
\<close>

theorem three_cases_counterexample:
  "handleQueryError
     (AxiosError (Some (AxiosResponse 500 (Body None))) (Some XMLHttpRequest)
        ''Request failed with status code 500'') = Inr ''Unknown error'' \<and>
   \<not> spec_taxonomy
       (AxiosError (Some (AxiosResponse 500 (Body None))) (Some XMLHttpRequest)
          ''Request failed with status code 500'') ''Unknown error''"
  by (simp add: handleQueryError_def js_or_def spec_taxonomy_def responded_def)

text \<open>
  C5, amended. For every failure whose response body, if there is a response, is not
  \<^verbatim>\<open>null\<close>: the handler returns exactly one message; it is \<^verbatim>\<open>Unknown error\<close> when the
  remote responded without a message or with an empty one, and otherwise the message of
  the three cases (the response's message payload, the fixed no-response text, or the
  failure's own message).
\<close>

theorem handleQueryError_cases:
  assumes "\<not> null_body err"
  shows "(handleQueryError err = Inr s) =
           (if responded err \<and> (payload err = None \<or> payload err = Some [])
            then s = ''Unknown error'' else spec_taxonomy err s)"
proof (cases err)
  case (Error m)
  then show ?thesis
    by (auto simp: handleQueryError_def spec_taxonomy_def responded_def sent_def)
next
  case (AxiosError r rq m)
  show ?thesis
  proof (cases r)
    case None
    with AxiosError show ?thesis
      by (auto simp: handleQueryError_def spec_taxonomy_def responded_def sent_def)
  next
    case (Some resp)
    obtain code d where resp: "resp = AxiosResponse code d" by (cases resp)
    from assms AxiosError Some resp obtain msg where d: "d = Body msg"
      by (cases d) simp_all
    from AxiosError Some resp d show ?thesis
      by (auto simp: handleQueryError_def js_or_def spec_taxonomy_def responded_def
               split: option.splits)
  qed
qed

theorem handleQueryError_cases_witness:
  "\<not> null_body (AxiosError (Some (AxiosResponse 429 (Body (Some ''Too many requests''))))
       (Some XMLHttpRequest) ''Request failed with status code 429'') \<and>
   handleQueryError (AxiosError (Some (AxiosResponse 429 (Body (Some ''Too many requests''))))
       (Some XMLHttpRequest) ''Request failed with status code 429'') = Inr ''Too many requests'' \<and>
   handleQueryError (AxiosError None (Some XMLHttpRequest) ''Network Error'')
     = Inr ''No response from server'' \<and>
   handleQueryError (Error ''boom'') = Inr ''boom''"
  using handleQueryError_cases
      [of "AxiosError (Some (AxiosResponse 429 (Body (Some ''Too many requests''))))
             (Some XMLHttpRequest) ''Request failed with status code 429''" "''Too many requests''"]
    handleQueryError_cases [of "AxiosError None (Some XMLHttpRequest) ''Network Error''"
      "''No response from server''"]
    handleQueryError_cases [of "Error ''boom''" "''boom''"]
  by (simp add: spec_taxonomy_def responded_def sent_def)

text \<open>
  For a failure whose response body is not \<^verbatim>\<open>null\<close>, \<open>onError\<close> shows exactly one toast.
\<close>

lemma onError_one_toast:
  assumes "\<not> null_body err"
  shows "\<exists>t. onError err shown = Inr (shown @ [t])"
proof -
  have "\<exists>msg. handleQueryError err = Inr msg"
  proof (cases err)
    case (Error m)
    then show ?thesis by (simp add: handleQueryError_def)
  next
    case (AxiosError r rq m)
    show ?thesis
    proof (cases r)
      case None
      with AxiosError show ?thesis by (simp add: handleQueryError_def)
    next
      case (Some resp)
      obtain code d where resp: "resp = AxiosResponse code d" by (cases resp)
      from assms AxiosError Some resp obtain msg where "d = Body msg"
        by (cases d) simp_all
      with AxiosError Some resp show ?thesis by (simp add: handleQueryError_def)
    qed
  qed
  then show ?thesis by (auto simp: onError_def errorNotificationToast_def)
qed

text \<open>
  C8. A fetch that fails with a response whose body is \<^verbatim>\<open>null\<close>: \<open>handleQueryError\<close> throws
  while the argument of \<^verbatim>\<open>errorNotificationToast\<close> is being evaluated, so \<open>onError\<close> ends
  with the exception and no toast is shown, whatever was shown before.
\<close>

theorem onError_null_body:
  "onError (AxiosError (Some (AxiosResponse 500 Nullish)) (Some XMLHttpRequest)
      ''Request failed with status code 500'') shown = Inl TypeError"
  by (simp add: onError_def handleQueryError_def)

text \<open>
  For a failure with a response whose body is not \<^verbatim>\<open>null\<close> and has no \<^verbatim>\<open>message\<close> field, the
  handler returns the fixed text \<^verbatim>\<open>Unknown error\<close>, whatever the status, the request and
  the failure's own message are.
\<close>

lemma handleQueryError_no_message:
  "handleQueryError (AxiosError (Some (AxiosResponse code (Body None))) rq m)
     = Inr ''Unknown error''"
  by (simp add: handleQueryError_def js_or_def)

text \<open>
  C9. A failure with a response whose body is \<^verbatim>\<open>null\<close>: the response is present and
  carries no message, yet the handler does not return \<^verbatim>\<open>Unknown error\<close>; reading
  \<^verbatim>\<open>message\<close> of the body throws.
\<close>

theorem handleQueryError_null_body:
  "responded (AxiosError (Some (AxiosResponse 502 Nullish)) (Some XMLHttpRequest)
      ''Request failed with status code 502'') \<and>
   payload (AxiosError (Some (AxiosResponse 502 Nullish)) (Some XMLHttpRequest)
      ''Request failed with status code 502'') = None \<and>
   handleQueryError (AxiosError (Some (AxiosResponse 502 Nullish)) (Some XMLHttpRequest)
      ''Request failed with status code 502'') = Inl TypeError"
  by (simp add: responded_def handleQueryError_def)

section \<open>Pagination\<close>

text \<open>
  C10. \<open>handlePageChange\<close> always sets the current page to the given page; it sets the page
  size to the given one when that is a nonzero number, and leaves the page size as it was
  when the given one is 0 or absent.
\<close>

theorem handlePageChange_effect:
  "currentPage (handlePageChange page ps st) = page \<and>
   (n \<noteq> 0 \<longrightarrow> pageSize (handlePageChange page (Some n) st) = n) \<and>
   pageSize (handlePageChange page (Some 0) st) = pageSize st \<and>
   pageSize (handlePageChange page None st) = pageSize st"
  by (simp add: handlePageChange_def Let_def split: option.splits)

theorem handlePageChange_effect_witness:
  "(20::int) \<noteq> 0 \<and>
   currentPage (handlePageChange 3 (Some 20) initial_page) = 3 \<and>
   pageSize (handlePageChange 3 (Some 20) initial_page) = 20 \<and>
   pageSize (handlePageChange 3 (Some 0) initial_page) = 10 \<and>
   pageSize (handlePageChange 3 None initial_page) = 10"
  using handlePageChange_effect [of 3 "Some 20" initial_page 20]
  by (simp add: initial_page_def)

section \<open>The coordinator: fetches in flight\<close>

lemmas coordinator_defs =
  init_coordinator_def run_def launch_def keeps_data_def succeed_def fail_def focus_def
  is_active_def useGetMarketCoinsQuery_def getQueryData_def setQueryData_def onSuccess_def
  onError_def handleQueryError_def errorNotificationToast_def displayKey_def fetchKey_def
  fetch_request_def coinsRequest_def initial_page_def App_defaultOptions_def Let_def

lemma exec_append: "exec opts (evs @ evs') s = exec opts evs' (exec opts evs s)"
  by (induction evs arbitrary: s) simp_all

lemma queryKey_hook: "queryKey (useGetMarketCoinsQuery qc st) = fetchKey st"
  by (simp add: useGetMarketCoinsQuery_def Let_def)











section \<open>The coordinator: outcomes\<close>

text \<open>An outcome that arrives for a key the page no longer displays changes nothing shown.\<close>

lemma stale_outcome_dropped:
  assumes "\<not> is_active k s"
  shows "cache (step opts (Resolve k rows) s) = cache s \<and>
         result (step opts (Resolve k rows) s) = result s \<and>
         result (step opts (Reject k err) s) = result s \<and>
         toasts (step opts (Reject k err) s) = toasts s"
  using assms by (auto simp: succeed_def fail_def is_active_def Let_def split: option.splits)




text \<open>
  C3. As worded the claim fails for a fetch that succeeds after the page has moved to
  another key: its rows are neither stored under its display key nor shown.
\<close>

theorem stale_success_counterexample:
  "fetchKey initial_page \<in> set (inflight (exec App_defaultOptions
      [Run initial_page True, Run (initial_page\<lparr>currentPage := 2\<rparr>) True]
      (init_coordinator :: string coordinator))) \<and>
   getQueryData (cache (exec App_defaultOptions
      [Run initial_page True, Run (initial_page\<lparr>currentPage := 2\<rparr>) True,
       Resolve (fetchKey initial_page) [''bitcoin'']]
      (init_coordinator :: string coordinator))) (displayKey initial_page) = None \<and>
   data (result (exec App_defaultOptions
      [Run initial_page True, Run (initial_page\<lparr>currentPage := 2\<rparr>) True,
       Resolve (fetchKey initial_page) [''bitcoin'']]
      (init_coordinator :: string coordinator))) = [] \<and>
   isFetching (result (exec App_defaultOptions
      [Run initial_page True, Run (initial_page\<lparr>currentPage := 2\<rparr>) True,
       Resolve (fetchKey initial_page) [''bitcoin'']]
      (init_coordinator :: string coordinator)))"
  by (simp add: coordinator_defs)

text \<open>
  C3, amended. When the pending fetch of the displayed query succeeds with \<open>rows\<close>,
  \<open>onSuccess\<close> stores them under the display key, so the lookup of that key then returns exactly \<open>rows\<close>; the
  observable state becomes \<open>rows\<close>, not loading, not fetching, no error; and the fetch
  is no longer in flight.
\<close>

theorem success_stores_and_shows:
  assumes "active s = Some st" and "fetchKey st \<in> set (inflight s)"
  shows "let s' = step opts (Resolve (fetchKey st) rows) s in
           getQueryData (cache s') (displayKey st) = Some rows \<and>
           result s' = \<lparr>data = rows, isLoading = False, isFetching = False, error = None\<rparr> \<and>
           fetchKey st \<notin> set (inflight s')"
  using assms
  by (simp add: succeed_def Let_def onSuccess_def setQueryData_def getQueryData_def)

theorem success_stores_and_shows_witness:
  "active (exec App_defaultOptions [Run initial_page True]
      (init_coordinator :: string coordinator)) = Some initial_page \<and>
   fetchKey initial_page \<in> set (inflight (exec App_defaultOptions [Run initial_page True]
      (init_coordinator :: string coordinator))) \<and>
   getQueryData (cache (exec App_defaultOptions
       [Run initial_page True, Resolve (fetchKey initial_page) [''bitcoin'', ''ethereum'']]
       init_coordinator)) (displayKey initial_page) = Some [''bitcoin'', ''ethereum''] \<and>
   result (exec App_defaultOptions
       [Run initial_page True, Resolve (fetchKey initial_page) [''bitcoin'', ''ethereum'']]
       init_coordinator)
     = \<lparr>data = [''bitcoin'', ''ethereum''], isLoading = False, isFetching = False,
        error = None\<rparr>"
proof -
  let ?s = "exec App_defaultOptions [Run initial_page True]
              (init_coordinator :: string coordinator)"
  have a: "active ?s = Some initial_page"
    by (simp add: run_def launch_def Let_def)
  have b: "fetchKey initial_page \<in> set (inflight ?s)"
    by (simp add: run_def launch_def Let_def init_coordinator_def queryKey_hook)
  from success_stores_and_shows [OF a b, of App_defaultOptions "[''bitcoin'', ''ethereum'']"] a b
  show ?thesis by (simp add: Let_def)
qed

text \<open>
  C4. A failed fetch leaves the whole store as it was, so the lookup of any key returns
  what it returned before (or nothing, if nothing was stored), and the displayed data keeps
  its value. When the failed fetch is the pending fetch of the displayed query, the
  failure is recorded in the observable state and loading and fetching end.
\<close>

theorem failure_keeps_store_and_data:
  "let s' = step opts (Reject k err) s in
     cache s' = cache s \<and>
     getQueryData (cache s') dk = getQueryData (cache s) dk \<and>
     data (result s') = data (result s) \<and>
     (k \<in> set (inflight s) \<and> is_active k s \<longrightarrow>
        error (result s') = Some err \<and> \<not> isLoading (result s') \<and> \<not> isFetching (result s'))"
  by (simp add: fail_def Let_def)

theorem failure_keeps_store_and_data_witness:
  "getQueryData (cache (exec App_defaultOptions
       [Run initial_page True, Resolve (fetchKey initial_page) [''bitcoin''],
        Run initial_page False,
        Reject (fetchKey initial_page) (AxiosError None (Some XMLHttpRequest) ''Network Error'')]
       init_coordinator)) (displayKey initial_page) = Some [''bitcoin''] \<and>
   data (result (exec App_defaultOptions
       [Run initial_page True, Resolve (fetchKey initial_page) [''bitcoin''],
        Run initial_page False,
        Reject (fetchKey initial_page) (AxiosError None (Some XMLHttpRequest) ''Network Error'')]
       init_coordinator)) = [''bitcoin''] \<and>
   error (result (exec App_defaultOptions
       [Run initial_page True, Resolve (fetchKey initial_page) [''bitcoin''],
        Run initial_page False,
        Reject (fetchKey initial_page) (AxiosError None (Some XMLHttpRequest) ''Network Error'')]
       init_coordinator)) = Some (AxiosError None (Some XMLHttpRequest) ''Network Error'')"
proof -
  let ?s = "exec App_defaultOptions
       [Run initial_page True, Resolve (fetchKey initial_page) [''bitcoin''],
        Run initial_page False] (init_coordinator :: string coordinator)"
  have a: "fetchKey initial_page \<in> set (inflight ?s)"
    by (simp add: coordinator_defs)
  have b: "is_active (fetchKey initial_page) ?s"
    by (simp add: coordinator_defs)
  have c: "getQueryData (cache ?s) (displayKey initial_page) = Some [''bitcoin'']"
    by (simp add: coordinator_defs)
  have d: "data (result ?s) = [''bitcoin'']"
    by (simp add: coordinator_defs)
  from failure_keeps_store_and_data [of App_defaultOptions "fetchKey initial_page"
      "AxiosError None (Some XMLHttpRequest) ''Network Error''" ?s "displayKey initial_page"]
    a b c d
  show ?thesis by (simp add: Let_def)
qed




end
